theory Spec2Isabelle
  imports Main
begin

section \<open>The DoFler API client (dofler/api/client.py)\<close>

text \<open>
  The client class \<open>DoflerClient\<close> reports accounts, images and packet statistics of a
  sensor either to the local database (when its host is a loopback name) or to a remote
  collector over HTTP. The embedding below passes the outside world explicitly: the
  sensor's file system, the three database tables, the database sessions held, the
  requests handed to the HTTP session, the log, and what the collector answers.
  Python 2 \<open>str\<close> values are byte strings, here \<open>string\<close>; Python integers are \<open>int\<close>.
\<close>

subsection \<open>Values, errors and outcomes\<close>

datatype error =
    IOError
  | ConnectionError
  | ValueError
  | NoResultFound
  | MultipleResultsFound
  | ArgumentError

text \<open>
  What a call does to its caller: it returns a value, raises an exception, or never
  returns (a future whose \<open>result()\<close> is awaited and whose collector stays silent;
  the source sets no timeout).
\<close>

datatype 'a outcome = Return 'a | Raise error | Hang

datatype pyval = PyStr string | PyInt int

datatype level = DEBUG | ERROR

type_synonym log_entry = "level \<times> string \<times> pyval list"

subsection \<open>The client object\<close>

text \<open>
  The attributes \<open>__init__\<close> sets. \<open>opener\<close>, \<open>engine\<close> and \<open>Session\<close> are handles on
  the HTTP session and on the database; what they do is part of \<open>world\<close> below.
  \<open>port\<close> is only ever rendered with \<open>%s\<close> and is kept as its text.
\<close>

record client =
  host :: string
  port :: string
  ssl :: bool
  anonymize :: bool
  username :: string

subsection \<open>Database rows\<close>

text \<open>
  Modelled from the spec: the classes \<open>Account\<close>, \<open>Image\<close> and \<open>Stat\<close> of
  \<open>dofler.models\<close> are not among the sources. The spec gives the schema
  \<open>Account(username, password, info, proto, parser)\<close>,
  \<open>Image(timestamp, filetype, data, content_hash PK, count)\<close> with an initial counter
  of 1, and \<open>Stat(proto, username, count, timestamp)\<close> with an implicit creation
  timestamp. The constructors below take their arguments in the order the client
  passes them.
\<close>

record account_row =
  acc_username :: string
  acc_password :: string
  acc_info :: string
  acc_proto :: string
  acc_parser :: string

record image_row =
  img_timestamp :: int
  img_filetype :: string
  img_data :: string
  img_md5sum :: string
  img_count :: int

record stat_row =
  st_proto :: string
  st_username :: string
  st_count :: int
  st_timestamp :: int

definition Account :: "string \<Rightarrow> string \<Rightarrow> string \<Rightarrow> string \<Rightarrow> string \<Rightarrow> account_row" where
  "Account u p i pr pa =
     \<lparr>acc_username = u, acc_password = p, acc_info = i, acc_proto = pr, acc_parser = pa\<rparr>"

definition Image :: "int \<Rightarrow> string \<Rightarrow> string \<Rightarrow> string \<Rightarrow> image_row" where
  "Image ts ftype bytes md5 =
     \<lparr>img_timestamp = ts, img_filetype = ftype, img_data = bytes, img_md5sum = md5,
      img_count = 1\<rparr>"

definition Stat :: "string \<Rightarrow> string \<Rightarrow> int \<Rightarrow> int \<Rightarrow> stat_row" where
  "Stat pr u n now = \<lparr>st_proto = pr, st_username = u, st_count = n, st_timestamp = now\<rparr>"

subsection \<open>The world outside the client\<close>

record sensor_file =
  readable :: bool
  filedata :: string

record request =
  location :: string
  data :: "(string \<times> pyval) list"
  files :: "(string \<times> string \<times> string) list"

record response =
  content :: string

datatype reply = Reply response | Fails error | Silent

text \<open>
  \<open>fs\<close>: the files of the sensor. \<open>accounts\<close>, \<open>images\<close>, \<open>stats\<close>: the committed rows
  of the three tables, in insertion order. \<open>opened\<close> and \<open>closed\<close>: how many database
  sessions were opened and how many were closed. \<open>commits\<close>: how many times a session was committed. \<open>posts\<close>: the
  requests handed to \<open>opener.post\<close>, in order. \<open>logs\<close>: the log. \<open>refuse\<close>: whether
  handing a request to \<open>opener.post\<close> raises at once. \<open>net\<close>: what awaiting the future
  of a request gives. \<open>engine_fails\<close>: what reading the database URL from the configuration
  and creating the engine from it raises, if anything.
\<close>

record world =
  fs :: "string \<rightharpoonup> sensor_file"
  accounts :: "account_row list"
  images :: "image_row list"
  stats :: "stat_row list"
  opened :: nat
  closed :: nat
  commits :: nat
  posts :: "request list"
  logs :: "log_entry list"
  refuse :: "request \<Rightarrow> error option"
  net :: "request \<Rightarrow> reply"
  engine_fails :: "error option"

definition log_debug :: "string \<Rightarrow> pyval list \<Rightarrow> world \<Rightarrow> world" where
  "log_debug fmt args w = w\<lparr>logs := logs w @ [(DEBUG, fmt, args)]\<rparr>"

definition log_error :: "string \<Rightarrow> pyval list \<Rightarrow> world \<Rightarrow> world" where
  "log_error fmt args w = w\<lparr>logs := logs w @ [(ERROR, fmt, args)]\<rparr>"

subsection \<open>Mode selection and the password mask\<close>

text \<open>The test \<open>self.host in ['localhost', '127.0.0.1']\<close> of lines 28, 98, 136 and 178.\<close>

definition host_is_local :: "client \<Rightarrow> bool" where
  "host_is_local c \<longleftrightarrow> host c \<in> set [''localhost'', ''127.0.0.1'']"

text \<open>
  Lines 95 to 97 of \<open>account\<close>: with the flag set, a password of three characters or
  more keeps its first three and has every later one replaced by an asterisk.
\<close>

definition anonymize_password :: "bool \<Rightarrow> string \<Rightarrow> string" where
  "anonymize_password anon password =
     (if anon then
        (if length password \<ge> 3
         then take 3 password @ replicate (length password - 3) CHR ''*''
         else password)
      else password)"

subsection \<open>The HTTP channel\<close>

text \<open>
  \<open>opener.post\<close> of the \<open>FuturesSession\<close>: the request is handed to the worker pool and a
  future comes back at once; the future is represented by the request it stands for.
  Handing over may itself raise. \<open>result\<close> is the future's \<open>result()\<close>: the collector's
  response, the exception the transfer met, or no return at all.
\<close>

definition opener_post :: "request \<Rightarrow> world \<Rightarrow> request outcome \<times> world" where
  "opener_post req w =
     (let w1 = w\<lparr>posts := posts w @ [req]\<rparr>
      in case refuse w req of Some e \<Rightarrow> (Raise e, w1) | None \<Rightarrow> (Return req, w1))"

definition result :: "request \<Rightarrow> world \<Rightarrow> response outcome" where
  "result fut w = (case net w fut of Reply r \<Rightarrow> Return r | Fails e \<Rightarrow> Raise e | Silent \<Rightarrow> Hang)"

text \<open>\<open>call(url, data, files)\<close>, lines 33 to 52; \<open>location_of\<close> is the URL that line 50
  builds from the scheme, the host, the port and the path.\<close>

definition location_of :: "client \<Rightarrow> string \<Rightarrow> string" where
  "location_of c url = (if ssl c then ''https://'' else ''http://'') @ host c @ '':'' @ port c @ url"

definition call ::
  "client \<Rightarrow> string \<Rightarrow> (string \<times> pyval) list \<Rightarrow> (string \<times> string \<times> string) list \<Rightarrow> world
     \<Rightarrow> request outcome \<times> world" where
  "call c url dat fls w =
     (let loc = location_of c url;
          w1 = log_debug ''CLIENT: %s'' [PyStr loc] w
      in opener_post \<lparr>location = loc, data = dat, files = fls\<rparr> w1)"

text \<open>A call whose value is dropped, \<open>.result()\<close> on a future, and \<open>json.loads\<close> of a
  response's content (the decoder is a parameter: it belongs to the Python library).\<close>

fun ignore_result :: "'a outcome \<times> world \<Rightarrow> unit outcome \<times> world" where
  "ignore_result (Return _, w) = (Return (), w)"
| "ignore_result (Raise e, w) = (Raise e, w)"
| "ignore_result (Hang, w) = (Hang, w)"

fun await :: "request outcome \<times> world \<Rightarrow> response outcome \<times> world" where
  "await (Return fut, w) = (result fut w, w)"
| "await (Raise e, w) = (Raise e, w)"
| "await (Hang, w) = (Hang, w)"

fun loads :: "(string \<Rightarrow> error + 'j) \<Rightarrow> response outcome \<times> world \<Rightarrow> 'j outcome \<times> world" where
  "loads json_loads (Return resp, w) =
     (case json_loads (content resp) of Inl e \<Rightarrow> (Raise e, w) | Inr j \<Rightarrow> (Return j, w))"
| "loads json_loads (Raise e, w) = (Raise e, w)"
| "loads json_loads (Hang, w) = (Hang, w)"

subsection \<open>The database session\<close>

text \<open>
  \<open>self.Session()\<close>, \<open>s.commit()\<close> and \<open>s.close()\<close>. On every path of the source an
  \<open>s.add\<close> or a change to a loaded row is followed by \<open>s.commit()\<close>, so the operations
  below write the table at the \<open>add\<close> and count the commit.
\<close>

definition Session_open :: "world \<Rightarrow> world" where
  "Session_open w = w\<lparr>opened := opened w + 1\<rparr>"

definition s_commit :: "world \<Rightarrow> world" where
  "s_commit w = w\<lparr>commits := commits w + 1\<rparr>"

definition s_close :: "world \<Rightarrow> world" where
  "s_close w = w\<lparr>closed := closed w + 1\<rparr>"

text \<open>The sessions still held: opened and not closed.\<close>

definition held :: "world \<Rightarrow> nat" where
  "held w = opened w - closed w"

text \<open>\<open>Query.one()\<close>: the single row, or an exception when there is none or several.\<close>

fun one :: "'a list \<Rightarrow> error + 'a" where
  "one [] = Inl NoResultFound"
| "one [x] = Inr x"
| "one (x # y # _) = Inl MultipleResultsFound"

subsection \<open>Files\<close>

text \<open>\<open>open(filename, 'rb')\<close> on a file that exists, and \<open>str.split(sep)\<close> for a
  one-character separator (it always gives at least one piece).\<close>

definition open_rb :: "sensor_file \<Rightarrow> error + string" where
  "open_rb f = (if readable f then Inr (filedata f) else Inl IOError)"

fun split_on :: "char \<Rightarrow> string \<Rightarrow> string list" where
  "split_on sep [] = [[]]"
| "split_on sep (x # xs) =
     (if x = sep then [] # split_on sep xs
      else (case split_on sep xs of p # ps \<Rightarrow> (x # p) # ps | [] \<Rightarrow> [[x]]))"

subsection \<open>The operations of the client\<close>

text \<open>\<open>login\<close>, lines 55 to 70, and \<open>__init__\<close>, lines 20 to 30. After the login, and on
  a loopback host only, \<open>__init__\<close> creates the engine and the session factory; that
  connects to nothing, but reading the configuration or creating the engine may raise.\<close>

definition login :: "client \<Rightarrow> string \<Rightarrow> string \<Rightarrow> world \<Rightarrow> unit outcome \<times> world" where
  "login c usr pwd w =
     ignore_result
       (await (call c ''/post/login'' [(''username'', PyStr usr), (''password'', PyStr pwd)] [] w))"

definition DoflerClient ::
  "string \<Rightarrow> string \<Rightarrow> string \<Rightarrow> string \<Rightarrow> bool \<Rightarrow> bool \<Rightarrow> world \<Rightarrow> client outcome \<times> world" where
  "DoflerClient h p usr pwd s anon w =
     (let c = \<lparr>host = h, port = p, ssl = s, anonymize = anon, username = usr\<rparr>
      in case login c usr pwd w of
           (Return _, w1) \<Rightarrow>
             (if host_is_local c then
                (case engine_fails w1 of Some e \<Rightarrow> (Raise e, w1) | None \<Rightarrow> (Return c, w1))
              else (Return c, w1))
         | (Raise e, w1) \<Rightarrow> (Raise e, w1)
         | (Hang, w1) \<Rightarrow> (Hang, w1))"

text \<open>\<open>account\<close>, lines 73 to 120. \<open>clean\<close> is \<open>bleach.clean\<close>, a parameter.\<close>

definition account ::
  "(string \<Rightarrow> string) \<Rightarrow> client \<Rightarrow> string \<Rightarrow> string \<Rightarrow> string \<Rightarrow> string \<Rightarrow> string \<Rightarrow> world
     \<Rightarrow> unit outcome \<times> world" where
  "account clean c usr pwd info proto parser w =
     (let password = anonymize_password (anonymize c) pwd in
      if host_is_local c then
        (let w1 = Session_open w in
         if length (filter (\<lambda>r. acc_info r = clean info)
                     (filter (\<lambda>r. acc_password r = clean password)
                       (filter (\<lambda>r. acc_username r = clean usr) (accounts w1)))) < 1
            \<and> password \<noteq> []
         then
           (let w2 = w1\<lparr>accounts := accounts w1 @
                         [Account (clean usr) (clean password) (clean info)
                                  (clean proto) (clean parser)]\<rparr>;
                w3 = s_commit w2
            in (Return (),
                log_debug ''DATABASE: Added Account: %s:%s:%s:%s:%s''
                  [PyStr usr, PyStr password, PyStr info, PyStr proto, PyStr parser] w3))
         else (Return (), w1))
      else
        ignore_result
          (call c ''/post/account''
             [(''username'', PyStr usr), (''password'', PyStr password), (''info'', PyStr info),
              (''proto'', PyStr proto), (''parser'', PyStr parser)] [] w))"

text \<open>The three columns the existence test of \<open>account\<close> filters on.\<close>

definition stored_triple :: "account_row \<Rightarrow> string \<times> string \<times> string" where
  "stored_triple r = (acc_username r, acc_password r, acc_info r)"

text \<open>\<open>image\<close>, lines 123 to 162. \<open>md5hash\<close> is \<open>dofler.md5.md5hash\<close>, a parameter;
  \<open>now\<close> is what \<open>int(time.time())\<close> reads during the call.\<close>

definition image_op ::
  "(string \<Rightarrow> string) \<Rightarrow> client \<Rightarrow> string \<Rightarrow> int \<Rightarrow> world \<Rightarrow> unit outcome \<times> world" where
  "image_op md5hash c filename now w =
     (case fs w filename of
        Some f \<Rightarrow>
          if host_is_local c then
            (case open_rb f of
               Inl e \<Rightarrow> (Raise e, w)
             | Inr bytes \<Rightarrow>
                 (let md5 = md5hash bytes;
                      w1 = Session_open w
                  in if length (filter (\<lambda>r. img_md5sum r = md5) (images w1)) > 0 then
                       (case one (filter (\<lambda>r. img_md5sum r = md5) (images w1)) of
                          Inl e \<Rightarrow> (Raise e, w1)
                        | Inr row \<Rightarrow>
                            (let image = row\<lparr>img_timestamp := now,
                                             img_count := img_count row + 1\<rparr>;
                                 w2 = w1\<lparr>images :=
                                         map (\<lambda>r. if img_md5sum r = md5 then image else r)
                                             (images w1)\<rparr>;
                                 w3 = log_debug ''DATABASE: Updated Image %s''
                                        [PyStr (img_md5sum image)] w2
                             in (Return (), s_close (s_commit w3))))
                     else
                       (let ftype = last (split_on CHR ''.'' filename);
                            image = Image now ftype bytes md5;
                            w2 = w1\<lparr>images := images w1 @ [image]\<rparr>;
                            w3 = log_debug ''DATABASE: Added Image %s''
                                   [PyStr (img_md5sum image)] w2
                        in (Return (), s_close (s_commit w3)))))
          else
            (let failed = log_error ''API: Upload Failed. %s=%skb''
                            [PyStr filename, PyInt (int (length (filedata f)) div 1024)]
             in case open_rb f of
                  Inl e \<Rightarrow> (Return (), failed w)
                | Inr bytes \<Rightarrow>
                    (case call c ''/post/image''
                            [(''filetype'', PyStr (last (split_on CHR ''.'' filename)))]
                            [(''file'', filename, bytes)] w of
                       (Return _, w1) \<Rightarrow> (Return (), w1)
                     | (Raise e, w1) \<Rightarrow> (Return (), failed w1)
                     | (Hang, w1) \<Rightarrow> (Hang, w1)))
      | None \<Rightarrow> (Return (), log_error ''API: %s doesnt exist'' [PyStr filename] w))"

text \<open>\<open>stat\<close>, lines 165 to 189; \<open>now\<close> is the creation time the row is given.\<close>

definition stat :: "client \<Rightarrow> string \<Rightarrow> int \<Rightarrow> int \<Rightarrow> world \<Rightarrow> unit outcome \<times> world" where
  "stat c proto n now w =
     (if host_is_local c then
        (let w1 = Session_open w;
             w2 = w1\<lparr>stats := stats w1 @ [Stat proto (username c) n now]\<rparr>;
             w3 = s_close (s_commit w2)
         in (Return (),
             log_debug ''DATABASE: Added Stat %s:%s:%s'' [PyStr proto, PyInt n, PyStr (username c)] w3))
      else
        ignore_result
          (call c ''/post/stat''
             [(''proto'', PyStr proto), (''count'', PyInt n), (''username'', PyStr (username c))] [] w))"

text \<open>\<open>reset\<close>, \<open>services\<close>, \<open>start\<close> and \<open>stop\<close>, lines 192 to 231.\<close>

definition reset :: "client \<Rightarrow> string \<Rightarrow> world \<Rightarrow> unit outcome \<times> world" where
  "reset c env w = ignore_result (call c ''/post/reset'' [(''type'', PyStr env)] [] w)"

definition services :: "(string \<Rightarrow> error + 'j) \<Rightarrow> client \<Rightarrow> world \<Rightarrow> 'j outcome \<times> world" where
  "services json_loads c w =
     loads json_loads
       (await (call c ''/post/services''
                 [(''action'', PyStr ''none''), (''parser'', PyStr ''none'')] [] w))"

definition start ::
  "(string \<Rightarrow> error + 'j) \<Rightarrow> client \<Rightarrow> string \<Rightarrow> world \<Rightarrow> 'j outcome \<times> world" where
  "start json_loads c name w =
     loads json_loads
       (await (call c ''/post/services''
                 [(''action'', PyStr ''Start''), (''parser'', PyStr name)] [] w))"

definition stop ::
  "(string \<Rightarrow> error + 'j) \<Rightarrow> client \<Rightarrow> string \<Rightarrow> world \<Rightarrow> 'j outcome \<times> world" where
  "stop json_loads c name w =
     loads json_loads
       (await (call c ''/post/services''
                 [(''action'', PyStr ''Stop''), (''parser'', PyStr name)] [] w))"

subsection \<open>Callers\<close>

text \<open>A parser that reports one thing after another; an exception ends the run.\<close>

fun image_calls ::
  "(string \<Rightarrow> string) \<Rightarrow> client \<Rightarrow> (string \<times> int) list \<Rightarrow> world \<Rightarrow> unit outcome \<times> world" where
  "image_calls md5hash c [] w = (Return (), w)"
| "image_calls md5hash c ((filename, now) # rest) w =
     (case image_op md5hash c filename now w of
        (Return _, w1) \<Rightarrow> image_calls md5hash c rest w1
      | (Raise e, w1) \<Rightarrow> (Raise e, w1)
      | (Hang, w1) \<Rightarrow> (Hang, w1))"

fun stat_calls :: "client \<Rightarrow> string \<Rightarrow> int \<Rightarrow> int list \<Rightarrow> world \<Rightarrow> unit outcome \<times> world" where
  "stat_calls c proto n [] w = (Return (), w)"
| "stat_calls c proto n (now # rest) w =
     (case stat c proto n now w of
        (Return _, w1) \<Rightarrow> stat_calls c proto n rest w1
      | (Raise e, w1) \<Rightarrow> (Raise e, w1)
      | (Hang, w1) \<Rightarrow> (Hang, w1))"

subsection \<open>Concrete clients and worlds\<close>

definition local_client :: client where
  "local_client =
     \<lparr>host = ''127.0.0.1'', port = ''8080'', ssl = False, anonymize = True,
      username = ''sensor1''\<rparr>"

definition remote_client :: client where
  "remote_client =
     \<lparr>host = ''collector.example.org'', port = ''443'', ssl = True, anonymize = True,
      username = ''sensor1''\<rparr>"

definition plain_local_client :: client where
  "plain_local_client = local_client\<lparr>anonymize := False\<rparr>"

text \<open>An empty database, a sensor with one readable picture and one unreadable one, a
  collector that answers every request with an empty JSON object.\<close>

definition answer :: "request \<Rightarrow> reply" where
  "answer req = Reply \<lparr>content = ''{}''\<rparr>"

definition accept :: "request \<Rightarrow> error option" where
  "accept req = None"

text \<open>A sanitizer for the examples: it escapes the three characters of markup, as
  \<open>bleach.clean\<close> does to markup it does not allow.\<close>

fun escape_markup :: "string \<Rightarrow> string" where
  "escape_markup [] = []"
| "escape_markup (x # xs) =
     (if x = CHR ''<'' then ''&lt;'' @ escape_markup xs
      else if x = CHR ''>'' then ''&gt;'' @ escape_markup xs
      else if x = CHR ''&'' then ''&amp;'' @ escape_markup xs
      else x # escape_markup xs)"


text \<open>A decoder for the examples: it knows the empty JSON object only.\<close>

definition decode_empty :: "string \<Rightarrow> error + (string \<times> string) list" where
  "decode_empty s = (if s = ''{}'' then Inr [] else Inl ValueError)"

text \<open>A collector that cannot be reached, and one that never answers.\<close>

definition unreachable :: "request \<Rightarrow> reply" where
  "unreachable req = Fails ConnectionError"

definition silence :: "request \<Rightarrow> reply" where
  "silence req = Silent"

definition fresh_world :: world where
  "fresh_world =
     \<lparr>fs = [''/tmp/cat.png'' \<mapsto> \<lparr>readable = True, filedata = ''PNGDATA''\<rparr>,
            ''/tmp/copy.png'' \<mapsto> \<lparr>readable = True, filedata = ''PNGDATA''\<rparr>,
            ''/tmp/locked.png'' \<mapsto> \<lparr>readable = False, filedata = ''SECRET''\<rparr>],
      accounts = [], images = [], stats = [], opened = 0, closed = 0, commits = 0, posts = [], logs = [],
      refuse = accept, net = answer, engine_fails = None\<rparr>"

section \<open>Properties\<close>

subsection \<open>The password mask\<close>



text \<open>
  Claim C3. The mask is a function of the password and the flag alone: with the flag
  set and at least three characters it gives the first three characters followed by
  one asterisk for each further character; with the flag unset, or fewer than three
  characters, it gives the password back. So \<open>abcdef\<close> becomes \<open>abc***\<close> and \<open>ab\<close> stays.
\<close>

theorem anonymize_password_cases:
  "(anon \<and> length pw \<ge> 3 \<longrightarrow>
      anonymize_password anon pw = take 3 pw @ replicate (length pw - 3) CHR ''*'')
   \<and> (\<not> anon \<or> length pw < 3 \<longrightarrow> anonymize_password anon pw = pw)
   \<and> anonymize_password True ''abcdef'' = ''abc***''
   \<and> anonymize_password True ''ab'' = ''ab''"
  by (simp add: anonymize_password_def)

theorem anonymize_password_cases_witness:
  "length ''secret'' \<ge> 3 \<and> anonymize_password True ''secret'' = ''sec***''
   \<and> length ''pw'' < 3 \<and> anonymize_password True ''pw'' = ''pw''
   \<and> anonymize_password False ''secret'' = ''secret''"
  using anonymize_password_cases [of True "''secret''"]
        anonymize_password_cases [of True "''pw''"]
        anonymize_password_cases [of False "''secret''"]
  by simp

subsection \<open>What a call through the channel changes\<close>

lemma call_posts:
  "posts (snd (call c url d f w)) =
     posts w @ [\<lparr>location = location_of c url, data = d, files = f\<rparr>]"
  by (simp add: call_def opener_post_def log_debug_def Let_def split: option.splits)

lemma call_store:
  "accounts (snd (call c url d f w)) = accounts w"
  "images (snd (call c url d f w)) = images w"
  "stats (snd (call c url d f w)) = stats w"
  "opened (snd (call c url d f w)) = opened w"
  "closed (snd (call c url d f w)) = closed w"
  "commits (snd (call c url d f w)) = commits w"
  "fs (snd (call c url d f w)) = fs w"
  "net (snd (call c url d f w)) = net w"
  "refuse (snd (call c url d f w)) = refuse w"
  "engine_fails (snd (call c url d f w)) = engine_fails w"
  by (simp_all add: call_def opener_post_def log_debug_def Let_def split: option.splits)

lemma call_no_hang: "fst (call c url d f w) \<noteq> Hang"
  by (simp add: call_def opener_post_def Let_def split: option.splits)

lemma snd_ignore_result: "snd (ignore_result p) = snd p"
  by (cases p rule: ignore_result.cases) simp_all

lemma snd_await: "snd (await p) = snd p"
  by (cases p rule: await.cases) simp_all

lemma snd_loads: "snd (loads jl p) = snd p"
  by (cases "(jl, p)" rule: loads.cases) (simp_all split: sum.splits)

subsection \<open>The password a remote account report carries\<close>

text \<open>
  Claim C1, as stated: on a client whose host is not a loopback name, the POST to
  \<open>/post/account\<close> carries the password exactly as the caller passed it, whatever the
  anonymize flag. It fails: the mask of lines 95 to 97 is applied before the host is
  looked at, so a client with the flag set reports \<open>secret\<close> as \<open>sec***\<close>.
\<close>

theorem account_remote_password_counterexample:
  "\<not> host_is_local remote_client \<and>
   map_of (data (last (posts (snd (account id remote_client ''bob'' ''secret'' ''ftp login''
                                     ''ftp'' ''ftpparser'' fresh_world)))))
          ''password'' \<noteq> Some (PyStr ''secret'')"
  by (simp add: account_def Let_def call_posts snd_ignore_result host_is_local_def
      remote_client_def anonymize_password_def)

text \<open>
  Claim C1, amended: on a client whose host is not a loopback name, \<open>account\<close> hands
  exactly one POST to the channel, to \<open>/post/account\<close>, with the username, info, proto
  and parser as passed and with the password masked by the anonymize flag (lines 95 to
  97); no sanitizer is applied to any field.
\<close>

theorem account_remote_post:
  "\<not> host_is_local c \<Longrightarrow>
   posts (snd (account clean c usr pwd info proto parser w)) =
     posts w @
       [\<lparr>location = location_of c ''/post/account'',
         data = [(''username'', PyStr usr),
                 (''password'', PyStr (anonymize_password (anonymize c) pwd)),
                 (''info'', PyStr info), (''proto'', PyStr proto), (''parser'', PyStr parser)],
         files = []\<rparr>]"
  by (simp add: account_def Let_def call_posts snd_ignore_result)

theorem account_remote_post_witness:
  "\<not> host_is_local remote_client \<and>
   posts (snd (account id remote_client ''bob'' ''secret'' ''ftp login'' ''ftp'' ''ftpparser''
                 fresh_world)) =
     [\<lparr>location = ''https://collector.example.org:443/post/account'',
       data = [(''username'', PyStr ''bob''), (''password'', PyStr ''sec***''),
               (''info'', PyStr ''ftp login''), (''proto'', PyStr ''ftp''),
               (''parser'', PyStr ''ftpparser'')],
       files = []\<rparr>]"
proof -
  have h: "\<not> host_is_local remote_client"
    by (simp add: host_is_local_def remote_client_def)
  show ?thesis
    using h account_remote_post [OF h, of id "''bob''" "''secret''" "''ftp login''" "''ftp''"
        "''ftpparser''" fresh_world]
    by (simp add: remote_client_def fresh_world_def anonymize_password_def location_of_def)
qed

subsection \<open>Statistics are appended\<close>

lemma stat_local_step:
  "host_is_local c \<Longrightarrow> stat c proto n now w = (r, w') \<Longrightarrow>
   r = Return () \<and> stats w' = stats w @ [Stat proto (username c) n now]"
  by (auto simp add: stat_def Let_def Session_open_def s_commit_def s_close_def log_debug_def)

text \<open>
  Claim C9. On a loopback host every \<open>stat(proto, count)\<close> inserts a row: a run of N calls
  with the same arguments returns normally and leaves the table with exactly N more
  rows, one per call in call order, none merged.
\<close>

theorem stat_local_appends:
  "host_is_local c \<Longrightarrow>
   fst (stat_calls c proto n ts w) = Return () \<and>
   stats (snd (stat_calls c proto n ts w)) = stats w @ map (Stat proto (username c) n) ts \<and>
   length (stats (snd (stat_calls c proto n ts w))) = length (stats w) + length ts"
proof (induction ts arbitrary: w)
  case Nil
  then show ?case by simp
next
  case (Cons t ts)
  obtain r w1 where s: "stat c proto n t w = (r, w1)" by (cases "stat c proto n t w")
  from stat_local_step [OF Cons.prems s] have r: "r = Return ()"
    and st: "stats w1 = stats w @ [Stat proto (username c) n t]" by simp_all
  from Cons.IH [OF Cons.prems, of w1] show ?case
    by (simp add: s r st)
qed

theorem stat_local_appends_witness:
  "host_is_local local_client \<and>
   stats (snd (stat_calls local_client ''http'' 42 [100, 160, 220] fresh_world)) =
     [Stat ''http'' ''sensor1'' 42 100, Stat ''http'' ''sensor1'' 42 160,
      Stat ''http'' ''sensor1'' 42 220] \<and>
   length (stats (snd (stat_calls local_client ''http'' 42 [100, 160, 220] fresh_world))) = 3"
proof -
  have h: "host_is_local local_client"
    by (simp add: host_is_local_def local_client_def)
  show ?thesis
    using h stat_local_appends [OF h, of "''http''" 42 "[100, 160, 220]" fresh_world]
    by (simp add: local_client_def fresh_world_def)
qed

subsection \<open>Sessions held after a call\<close>

lemma account_local_sessions:
  "host_is_local c \<Longrightarrow>
   opened (snd (account clean c usr pwd info proto parser w)) = opened w + 1 \<and>
   closed (snd (account clean c usr pwd info proto parser w)) = closed w"
  by (simp add: account_def Let_def Session_open_def s_commit_def log_debug_def)

lemma stat_local_sessions:
  "host_is_local c \<Longrightarrow>
   opened (snd (stat c proto n now w)) = opened w + 1 \<and>
   closed (snd (stat c proto n now w)) = closed w + 1 \<and>
   commits (snd (stat c proto n now w)) = commits w + 1"
  by (simp add: stat_def Let_def Session_open_def s_commit_def s_close_def log_debug_def)

text \<open>
  Claim C6 says that every local operation opens a session, commits and releases it
  before it returns. \<open>stat\<close> and \<open>image\<close> do; \<open>account\<close> never calls \<open>s.close()\<close>: after
  one local \<open>account\<close> call on a fresh database one session is open and none was
  closed, where \<open>stat\<close> and \<open>image\<close> leave none held.
\<close>

theorem account_session_left_open:
  "opened (snd (account id local_client ''bob'' ''secret'' ''ftp login'' ''ftp'' ''ftpparser''
                  fresh_world)) = 1
   \<and> closed (snd (account id local_client ''bob'' ''secret'' ''ftp login'' ''ftp'' ''ftpparser''
                    fresh_world)) = 0
   \<and> held (snd (account id local_client ''bob'' ''secret'' ''ftp login'' ''ftp'' ''ftpparser''
                  fresh_world)) = 1
   \<and> held (snd (stat local_client ''http'' 42 100 fresh_world)) = 0
   \<and> held (snd (image_op id local_client ''/tmp/cat.png'' 100 fresh_world)) = 0"
  by (simp add: account_def stat_def image_op_def Let_def host_is_local_def local_client_def
      fresh_world_def held_def Session_open_def s_commit_def s_close_def log_debug_def
      anonymize_password_def open_rb_def)

subsection \<open>Local account rows\<close>

lemma no_match_iff:
  "length (filter (\<lambda>r. acc_info r = i)
             (filter (\<lambda>r. acc_password r = p)
               (filter (\<lambda>r. acc_username r = u) rows))) < 1
   \<longleftrightarrow> (u, p, i) \<notin> stored_triple ` set rows"
  by (induction rows) (auto simp add: stored_triple_def)

lemma no_match_conj_iff:
  "filter (\<lambda>r. acc_username r = u \<and> acc_password r = p \<and> acc_info r = i) rows = []
   \<longleftrightarrow> (u, p, i) \<notin> stored_triple ` set rows"
  by (induction rows) (auto simp add: stored_triple_def)

lemma account_local_accounts:
  "host_is_local c \<Longrightarrow>
   accounts (snd (account clean c usr pwd info proto parser w)) =
     (if (clean usr, clean (anonymize_password (anonymize c) pwd), clean info)
           \<notin> stored_triple ` set (accounts w)
         \<and> anonymize_password (anonymize c) pwd \<noteq> []
      then accounts w @
             [Account (clean usr) (clean (anonymize_password (anonymize c) pwd)) (clean info)
                (clean proto) (clean parser)]
      else accounts w)"
  by (simp add: account_def Let_def no_match_conj_iff Session_open_def s_commit_def log_debug_def)






text \<open>
  Claim C10. On a loopback host the existence test compares the sanitized username,
  masked password and info with the stored columns, and the row inserted holds the
  sanitized value of each of the five fields (the password masked first). So with
  anonymization off, a password the sanitizer changes is stored changed.
\<close>

theorem account_local_sanitized:
  assumes loc: "host_is_local c"
    and w': "w' = snd (account clean c usr pwd info proto parser w)"
    and p: "p = anonymize_password (anonymize c) pwd"
  shows "accounts w' =
      (if (clean usr, clean p, clean info) \<notin> stored_triple ` set (accounts w) \<and> p \<noteq> []
       then accounts w @
              [\<lparr>acc_username = clean usr, acc_password = clean p, acc_info = clean info,
                acc_proto = clean proto, acc_parser = clean parser\<rparr>]
       else accounts w)
    \<and> (\<not> anonymize c \<and> pwd \<noteq> [] \<and> clean pwd \<noteq> pwd
         \<and> (clean usr, clean pwd, clean info) \<notin> stored_triple ` set (accounts w) \<longrightarrow>
           acc_password (last (accounts w')) = clean pwd
           \<and> acc_password (last (accounts w')) \<noteq> pwd)"
proof -
  have a: "accounts w' =
      (if (clean usr, clean p, clean info) \<notin> stored_triple ` set (accounts w) \<and> p \<noteq> []
       then accounts w @
              [\<lparr>acc_username = clean usr, acc_password = clean p, acc_info = clean info,
                acc_proto = clean proto, acc_parser = clean parser\<rparr>]
       else accounts w)"
    unfolding w' p using account_local_accounts [OF loc, of clean usr pwd info proto parser w]
    by (simp add: Account_def)
  have "\<not> anonymize c \<longrightarrow> p = pwd"
    by (simp add: p anonymize_password_def)
  with a show ?thesis by auto
qed

theorem account_local_sanitized_witness:
  "host_is_local plain_local_client \<and> \<not> anonymize plain_local_client
   \<and> escape_markup ''<b>pw'' \<noteq> ''<b>pw''
   \<and> accounts (snd (account escape_markup plain_local_client ''bob<'' ''<b>pw'' ''a&b'' ''ftp''
         ''ftpparser'' fresh_world))
      = [\<lparr>acc_username = ''bob&lt;'', acc_password = ''&lt;b&gt;pw'', acc_info = ''a&amp;b'',
          acc_proto = ''ftp'', acc_parser = ''ftpparser''\<rparr>]"
proof -
  have h: "host_is_local plain_local_client"
    by (simp add: host_is_local_def plain_local_client_def local_client_def)
  have e: "accounts fresh_world = []"
    by (simp add: fresh_world_def)
  show ?thesis
    using h e
      account_local_sanitized [OF h refl refl, of escape_markup "''bob<''" "''<b>pw''" "''a&b''"
        "''ftp''" "''ftpparser''" fresh_world]
    by (simp add: plain_local_client_def local_client_def anonymize_password_def)
qed

subsection \<open>Images are stored once per content hash\<close>

lemma one_single: "one xs = Inr x \<longleftrightarrow> xs = [x]"
  by (cases xs rule: one.cases) auto

lemma filter_replace:
  "P v \<Longrightarrow> filter P (map (\<lambda>r. if P r then v else r) xs) = map (\<lambda>_. v) (filter P xs)"
  by (induction xs) auto

lemma keys_replace:
  "img_md5sum v = h \<Longrightarrow>
   map img_md5sum (map (\<lambda>r. if img_md5sum r = h then v else r) xs) = map img_md5sum xs"
  by (induction xs) auto

lemma image_local_seen:
  assumes "host_is_local c" and "fs w p = Some f" and "readable f"
    and "filter (\<lambda>r. img_md5sum r = md5hash (filedata f)) (images w) = [row]"
  shows "fst (image_op md5hash c p t w) = Return ()"
    and "images (snd (image_op md5hash c p t w)) =
           map (\<lambda>r. if img_md5sum r = md5hash (filedata f)
                     then row\<lparr>img_timestamp := t, img_count := img_count row + 1\<rparr> else r)
               (images w)"
    and "fs (snd (image_op md5hash c p t w)) = fs w"
  using assms
  by (simp_all add: image_op_def open_rb_def Let_def Session_open_def s_commit_def s_close_def
      log_debug_def)

lemma image_local_new:
  assumes "host_is_local c" and "fs w p = Some f" and "readable f"
    and "filter (\<lambda>r. img_md5sum r = md5hash (filedata f)) (images w) = []"
  shows "fst (image_op md5hash c p t w) = Return ()"
    and "images (snd (image_op md5hash c p t w)) =
           images w @ [Image t (last (split_on CHR ''.'' p)) (filedata f) (md5hash (filedata f))]"
    and "fs (snd (image_op md5hash c p t w)) = fs w"
  using assms
  by (simp_all add: image_op_def open_rb_def Let_def Session_open_def s_commit_def s_close_def
      log_debug_def)

lemma image_op_fs: "fs (snd (image_op md5hash c p t w)) = fs w"
  by (auto simp add: image_op_def open_rb_def Let_def Session_open_def s_commit_def s_close_def
      log_debug_def log_error_def call_def opener_post_def
      split: option.splits sum.splits prod.splits outcome.splits)

lemma image_op_primary_key:
  assumes "distinct (map img_md5sum (images w))"
  shows "distinct (map img_md5sum (images (snd (image_op md5hash c p t w))))"
proof (cases "fs w p")
  case None
  with assms show ?thesis by (simp add: image_op_def log_error_def)
next
  case (Some f)
  show ?thesis
  proof (cases "host_is_local c \<and> readable f")
    case False
    with Some assms show ?thesis
      by (auto simp add: image_op_def open_rb_def Let_def log_error_def call_def opener_post_def
          log_debug_def split: option.splits)
  next
    case True
    let ?h = "md5hash (filedata f)"
    let ?rows = "filter (\<lambda>r. img_md5sum r = ?h) (images w)"
    show ?thesis
    proof (cases ?rows)
      case Nil
      then have "?h \<notin> set (map img_md5sum (images w))"
        by (auto simp add: filter_empty_conv)
      with image_local_new(2) [of c w p f md5hash t] True Some Nil assms show ?thesis
        by (simp add: Image_def)
    next
      case (Cons row rest)
      show ?thesis
      proof (cases rest)
        case Nil
        with Cons have single: "?rows = [row]" by simp
        then have "row \<in> set ?rows" by simp
        then have k: "img_md5sum row = ?h" by simp
        from image_local_seen(2) [of c w p f md5hash row t] True Some single
        have "images (snd (image_op md5hash c p t w)) =
            map (\<lambda>r. if img_md5sum r = ?h
                      then row\<lparr>img_timestamp := t, img_count := img_count row + 1\<rparr> else r)
                (images w)" by simp
        with assms k show ?thesis
          by (simp add: keys_replace del: map_map)
      next
        case (Cons row2 rest2)
        with \<open>?rows = row # rest\<close> True Some assms show ?thesis
          by (simp add: image_op_def open_rb_def Let_def Session_open_def)
      qed
    qed
  qed
qed

lemma image_calls_seen:
  assumes "host_is_local c"
    and "\<forall>(p, t) \<in> set calls. \<exists>f. fs w p = Some f \<and> readable f \<and> filedata f = B"
    and "filter (\<lambda>r. img_md5sum r = md5hash B) (images w) = [row]"
  shows "fst (image_calls md5hash c calls w) = Return () \<and>
         (\<exists>row'. filter (\<lambda>r. img_md5sum r = md5hash B) (images (snd (image_calls md5hash c calls w))) = [row']
            \<and> img_count row' = img_count row + int (length calls)
            \<and> img_md5sum row' = img_md5sum row \<and> img_data row' = img_data row)"
  using assms
proof (induction calls arbitrary: w row)
  case Nil
  then show ?case by simp
next
  case (Cons call calls)
  obtain p t where call: "call = (p, t)" by (cases call)
  from Cons.prems(2) call obtain f where f: "fs w p = Some f" "readable f" "filedata f = B"
    by auto
  from Cons.prems(3) have "row \<in> set (filter (\<lambda>r. img_md5sum r = md5hash B) (images w))"
    by simp
  then have k: "img_md5sum row = md5hash B" by simp
  let ?row1 = "row\<lparr>img_timestamp := t, img_count := img_count row + 1\<rparr>"
  obtain r w1 where step: "image_op md5hash c p t w = (r, w1)"
    by (cases "image_op md5hash c p t w")
  from image_local_seen [of c w p f md5hash row t] Cons.prems(1,3) f step
  have r: "r = Return ()"
    and im: "images w1 = map (\<lambda>r. if img_md5sum r = md5hash B then ?row1 else r) (images w)"
    and fs1: "fs w1 = fs w"
    by simp_all
  have "filter (\<lambda>r. img_md5sum r = md5hash B) (images w1)
        = map (\<lambda>_. ?row1) (filter (\<lambda>r. img_md5sum r = md5hash B) (images w))"
    unfolding im using k by (intro filter_replace) simp
  with Cons.prems(3) have seen1: "filter (\<lambda>r. img_md5sum r = md5hash B) (images w1) = [?row1]"
    by simp
  from Cons.prems(2) fs1
  have files1: "\<forall>(p, t) \<in> set calls. \<exists>f. fs w1 p = Some f \<and> readable f \<and> filedata f = B"
    by simp
  from Cons.IH [where w = w1 and row = ?row1, OF Cons.prems(1) files1 seen1] show ?case
    by (auto simp add: call step r)
qed

lemma image_calls_primary_key:
  "distinct (map img_md5sum (images w)) \<Longrightarrow>
   distinct (map img_md5sum (images (snd (image_calls md5hash c calls w))))"
proof (induction calls arbitrary: w)
  case Nil
  then show ?case by simp
next
  case (Cons call calls)
  obtain p t where call: "call = (p, t)" by (cases call)
  obtain r w1 where step: "image_op md5hash c p t w = (r, w1)"
    by (cases "image_op md5hash c p t w")
  from image_op_primary_key [OF Cons.prems, of md5hash c p t] step
  have pk: "distinct (map img_md5sum (images w1))" by simp
  show ?case
  proof (cases r)
    case (Return u)
    with Cons.IH [OF pk] show ?thesis by (simp add: call step)
  next
    case (Raise e)
    with pk show ?thesis by (simp add: call step)
  next
    case Hang
    with pk show ?thesis by (simp add: call step)
  qed
qed

text \<open>
  Claim C2. On a loopback host, take any run of \<open>image\<close> calls on readable files whose bytes
  are all B, from a database that has no row for the hash of B yet. The run returns
  normally; afterwards at most one row has the hash of B as its key, and when the run is
  not empty there is exactly one, its counter is the number of calls, its key is the
  hash of B and its data is B. Two reports give one row with counter 2.
\<close>

theorem image_local_counts:
  assumes loc: "host_is_local c"
    and files: "\<forall>(p, t) \<in> set calls. \<exists>f. fs w p = Some f \<and> readable f \<and> filedata f = B"
    and fresh: "filter (\<lambda>r. img_md5sum r = md5hash B) (images w) = []"
    and w': "w' = snd (image_calls md5hash c calls w)"
  shows "fst (image_calls md5hash c calls w) = Return ()
    \<and> length (filter (\<lambda>r. img_md5sum r = md5hash B) (images w')) \<le> 1
    \<and> (calls \<noteq> [] \<longrightarrow>
         (\<exists>row. filter (\<lambda>r. img_md5sum r = md5hash B) (images w') = [row]
            \<and> img_count row = int (length calls)
            \<and> img_md5sum row = md5hash B \<and> img_data row = B))"
proof (cases calls)
  case Nil
  with fresh w' show ?thesis by simp
next
  case (Cons call rest)
  obtain p t where call: "call = (p, t)" by (cases call)
  from files Cons call obtain f where f: "fs w p = Some f" "readable f" "filedata f = B"
    by auto
  let ?row1 = "Image t (last (split_on CHR ''.'' p)) B (md5hash B)"
  obtain r w1 where step: "image_op md5hash c p t w = (r, w1)"
    by (cases "image_op md5hash c p t w")
  from image_local_new [of c w p f md5hash t] loc fresh f step
  have r: "r = Return ()" and im: "images w1 = images w @ [?row1]" and fs1: "fs w1 = fs w"
    by simp_all
  from im fresh have seen1: "filter (\<lambda>r. img_md5sum r = md5hash B) (images w1) = [?row1]"
    by (simp add: Image_def)
  from files Cons fs1
  have files1: "\<forall>(p, t) \<in> set rest. \<exists>f. fs w1 p = Some f \<and> readable f \<and> filedata f = B"
    by simp
  from image_calls_seen [where md5hash = md5hash and B = B, OF loc files1 seen1]
  obtain row' where ok: "fst (image_calls md5hash c rest w1) = Return ()"
    and one: "filter (\<lambda>r. img_md5sum r = md5hash B) (images (snd (image_calls md5hash c rest w1))) = [row']"
    and cnt: "img_count row' = img_count ?row1 + int (length rest)"
    and key: "img_md5sum row' = img_md5sum ?row1" and dat: "img_data row' = img_data ?row1"
    by blast
  have run: "image_calls md5hash c calls w = image_calls md5hash c rest w1"
    by (simp add: Cons call step r)
  from ok one cnt key dat show ?thesis
    unfolding w' run by (simp add: Cons Image_def)
qed

theorem image_local_counts_witness:
  "host_is_local local_client
   \<and> (\<exists>row. filter (\<lambda>r. img_md5sum r = id ''PNGDATA'')
               (images (snd (image_calls id local_client
                               [(''/tmp/cat.png'', 100), (''/tmp/copy.png'', 160)] fresh_world)))
             = [row]
        \<and> img_count row = 2 \<and> img_md5sum row = id ''PNGDATA'')"
proof -
  have h: "host_is_local local_client"
    by (simp add: host_is_local_def local_client_def)
  have files: "\<forall>(p, t) \<in> set [(''/tmp/cat.png'', 100::int), (''/tmp/copy.png'', 160)].
      \<exists>f. fs fresh_world p = Some f \<and> readable f \<and> filedata f = ''PNGDATA''"
    by (simp add: fresh_world_def)
  have fresh: "filter (\<lambda>r. img_md5sum r = id ''PNGDATA'') (images fresh_world) = []"
    by (simp add: fresh_world_def)
  from image_local_counts [where md5hash = id and B = "''PNGDATA''", OF h files fresh refl] h
  show ?thesis
    by auto
qed

lemma image_twice_example:
  "images (snd (image_calls id local_client
                               [(''/tmp/cat.png'', 100), (''/tmp/copy.png'', 160)] fresh_world))
   = [\<lparr>img_timestamp = 160, img_filetype = ''png'', img_data = ''PNGDATA'',
       img_md5sum = ''PNGDATA'', img_count = 2\<rparr>]"
  by (simp add: image_op_def open_rb_def Let_def Session_open_def s_commit_def s_close_def
      log_debug_def fresh_world_def local_client_def host_is_local_def Image_def)

subsection \<open>Calls that wait for the collector\<close>

lemma await_call:
  "await (call c url d f w) =
     (case refuse w \<lparr>location = location_of c url, data = d, files = f\<rparr> of
        Some e \<Rightarrow> Raise e
      | None \<Rightarrow>
          (case net w \<lparr>location = location_of c url, data = d, files = f\<rparr> of
             Reply r \<Rightarrow> Return r | Fails e \<Rightarrow> Raise e | Silent \<Rightarrow> Hang),
      snd (call c url d f w))"
  by (simp add: call_def opener_post_def log_debug_def Let_def result_def split: option.splits)

lemma login_outcome:
  "fst (login c usr pwd w) =
     (case refuse w \<lparr>location = location_of c ''/post/login'',
                     data = [(''username'', PyStr usr), (''password'', PyStr pwd)], files = []\<rparr> of
        Some e \<Rightarrow> Raise e
      | None \<Rightarrow>
          (case net w \<lparr>location = location_of c ''/post/login'',
                        data = [(''username'', PyStr usr), (''password'', PyStr pwd)],
                        files = []\<rparr> of
             Reply r \<Rightarrow> Return () | Fails e \<Rightarrow> Raise e | Silent \<Rightarrow> Hang))"
  by (simp add: login_def await_call split: option.splits reply.splits)

lemma login_world:
  "posts (snd (login c usr pwd w)) =
     posts w @ [\<lparr>location = location_of c ''/post/login'',
                 data = [(''username'', PyStr usr), (''password'', PyStr pwd)], files = []\<rparr>]"
  "engine_fails (snd (login c usr pwd w)) = engine_fails w"
  by (simp_all add: login_def snd_ignore_result snd_await call_posts call_store)

lemma DoflerClient_outcome:
  "fst (DoflerClient h p usr pwd s anon w) =
     (case fst (login \<lparr>host = h, port = p, ssl = s, anonymize = anon, username = usr\<rparr> usr pwd w) of
        Return _ \<Rightarrow>
          (if host_is_local \<lparr>host = h, port = p, ssl = s, anonymize = anon, username = usr\<rparr>
           then (case engine_fails w of
                   Some e \<Rightarrow> Raise e
                 | None \<Rightarrow> Return \<lparr>host = h, port = p, ssl = s, anonymize = anon, username = usr\<rparr>)
           else Return \<lparr>host = h, port = p, ssl = s, anonymize = anon, username = usr\<rparr>)
      | Raise e \<Rightarrow> Raise e
      | Hang \<Rightarrow> Hang)"
proof -
  let ?c = "\<lparr>host = h, port = p, ssl = s, anonymize = anon, username = usr\<rparr>"
  obtain r w1 where l: "login ?c usr pwd w = (r, w1)"
    by (cases "login ?c usr pwd w")
  from login_world(2) [of ?c usr pwd w] l have e: "engine_fails w1 = engine_fails w"
    by simp
  show ?thesis
    by (cases r) (simp_all add: DoflerClient_def Let_def l e split: option.splits)
qed

lemma DoflerClient_world:
  "snd (DoflerClient h p usr pwd s anon w) =
     snd (login \<lparr>host = h, port = p, ssl = s, anonymize = anon, username = usr\<rparr> usr pwd w)"
  by (auto simp add: DoflerClient_def Let_def split: prod.splits outcome.splits option.splits)

lemma loads_await_call:
  "fst (loads jl (await (call c url d f w))) =
     (case refuse w \<lparr>location = location_of c url, data = d, files = f\<rparr> of
        Some e \<Rightarrow> Raise e
      | None \<Rightarrow>
          (case net w \<lparr>location = location_of c url, data = d, files = f\<rparr> of
             Reply r \<Rightarrow> (case jl (content r) of Inl e \<Rightarrow> Raise e | Inr j \<Rightarrow> Return j)
           | Fails e \<Rightarrow> Raise e
           | Silent \<Rightarrow> Hang))"
  by (simp add: await_call split: option.splits reply.splits sum.splits)

text \<open>A call that posts \<open>q\<close>, awaits the future and decodes the content of the response.\<close>

lemma awaited_json:
  assumes out: "fst run =
     (case refuse w q of
        Some e \<Rightarrow> Raise e
      | None \<Rightarrow>
          (case net w q of
             Reply r \<Rightarrow> (case jl (content r) of Inl e \<Rightarrow> Raise e | Inr j \<Rightarrow> Return j)
           | Fails e \<Rightarrow> Raise e
           | Silent \<Rightarrow> Hang))"
  shows "(fst run = Return j \<longleftrightarrow>
            refuse w q = None \<and> (\<exists>resp. net w q = Reply resp \<and> jl (content resp) = Inr j))
    \<and> (refuse w q = None \<and> net w q = Silent \<longrightarrow> fst run = Hang)
    \<and> (refuse w q = None \<and> net w q = Fails e \<longrightarrow> fst run = Raise e)"
  unfolding out by (auto split: option.splits reply.splits sum.splits)

text \<open>
  Claim C7. \<open>login\<close> hands a POST to \<open>/post/login\<close> to the channel whatever the host is and
  awaits its future: it returns exactly when the request was accepted and the collector
  has replied, and does not return while the collector stays silent. \<open>__init__\<close> calls it
  first: an unreachable collector makes construction raise the transfer's exception, a
  silent one makes it hang, and a client is returned exactly when the login was answered
  (and, on a loopback host, creating the engine did not raise). \<open>services\<close>, \<open>start\<close> and
  \<open>stop\<close> each hand one POST to \<open>/post/services\<close> to the channel, whatever the host, and
  return a value exactly when a response was received and its content was decoded as
  JSON: the value is the decoded content; they do not return while the collector stays
  silent and raise when the transfer fails.
\<close>

theorem blocking_calls:
  assumes lreq: "lreq = \<lparr>location = location_of c ''/post/login'',
                         data = [(''username'', PyStr usr), (''password'', PyStr pwd)],
                         files = []\<rparr>"
    and sreq: "sreq = (\<lambda>action name. \<lparr>location = location_of c ''/post/services'',
                         data = [(''action'', PyStr action), (''parser'', PyStr name)],
                         files = []\<rparr>)"
    and c: "c = \<lparr>host = h, port = p, ssl = s, anonymize = anon, username = usr\<rparr>"
  shows "posts (snd (login c usr pwd w)) = posts w @ [lreq]
    \<and> (fst (login c usr pwd w) = Return () \<longleftrightarrow>
          refuse w lreq = None \<and> (\<exists>resp. net w lreq = Reply resp))
    \<and> (refuse w lreq = None \<and> net w lreq = Silent \<longrightarrow> fst (login c usr pwd w) = Hang)
    \<and> posts (snd (DoflerClient h p usr pwd s anon w)) = posts w @ [lreq]
    \<and> (fst (DoflerClient h p usr pwd s anon w) = Return c \<longleftrightarrow>
          refuse w lreq = None \<and> (\<exists>resp. net w lreq = Reply resp)
          \<and> (host_is_local c \<longrightarrow> engine_fails w = None))
    \<and> (refuse w lreq = None \<and> net w lreq = Fails e \<longrightarrow>
          fst (DoflerClient h p usr pwd s anon w) = Raise e)
    \<and> (refuse w lreq = None \<and> net w lreq = Silent \<longrightarrow>
          fst (DoflerClient h p usr pwd s anon w) = Hang)
    \<and> posts (snd (services jl c w)) = posts w @ [sreq ''none'' ''none'']
    \<and> (fst (services jl c w) = Return j \<longleftrightarrow>
          refuse w (sreq ''none'' ''none'') = None
          \<and> (\<exists>resp. net w (sreq ''none'' ''none'') = Reply resp \<and> jl (content resp) = Inr j))
    \<and> (refuse w (sreq ''none'' ''none'') = None \<and> net w (sreq ''none'' ''none'') = Silent \<longrightarrow>
          fst (services jl c w) = Hang)
    \<and> (refuse w (sreq ''none'' ''none'') = None \<and> net w (sreq ''none'' ''none'') = Fails e \<longrightarrow>
          fst (services jl c w) = Raise e)
    \<and> posts (snd (start jl c name w)) = posts w @ [sreq ''Start'' name]
    \<and> (fst (start jl c name w) = Return j \<longleftrightarrow>
          refuse w (sreq ''Start'' name) = None
          \<and> (\<exists>resp. net w (sreq ''Start'' name) = Reply resp \<and> jl (content resp) = Inr j))
    \<and> (refuse w (sreq ''Start'' name) = None \<and> net w (sreq ''Start'' name) = Silent \<longrightarrow>
          fst (start jl c name w) = Hang)
    \<and> (refuse w (sreq ''Start'' name) = None \<and> net w (sreq ''Start'' name) = Fails e \<longrightarrow>
          fst (start jl c name w) = Raise e)
    \<and> posts (snd (stop jl c name w)) = posts w @ [sreq ''Stop'' name]
    \<and> (fst (stop jl c name w) = Return j \<longleftrightarrow>
          refuse w (sreq ''Stop'' name) = None
          \<and> (\<exists>resp. net w (sreq ''Stop'' name) = Reply resp \<and> jl (content resp) = Inr j))
    \<and> (refuse w (sreq ''Stop'' name) = None \<and> net w (sreq ''Stop'' name) = Silent \<longrightarrow>
          fst (stop jl c name w) = Hang)
    \<and> (refuse w (sreq ''Stop'' name) = None \<and> net w (sreq ''Stop'' name) = Fails e \<longrightarrow>
          fst (stop jl c name w) = Raise e)"
proof -
  have p1: "posts (snd (login c usr pwd w)) = posts w @ [lreq]"
    by (simp add: login_world lreq)
  have l1: "fst (login c usr pwd w) = Return () \<longleftrightarrow>
          refuse w lreq = None \<and> (\<exists>resp. net w lreq = Reply resp)"
    by (simp add: login_outcome lreq split: option.splits reply.splits)
  have l2: "refuse w lreq = None \<and> net w lreq = Silent \<longrightarrow> fst (login c usr pwd w) = Hang"
    by (simp add: login_outcome lreq)
  have p2: "posts (snd (DoflerClient h p usr pwd s anon w)) = posts w @ [lreq]"
    using p1 by (simp add: DoflerClient_world c)
  have d1: "fst (DoflerClient h p usr pwd s anon w) = Return c \<longleftrightarrow>
          refuse w lreq = None \<and> (\<exists>resp. net w lreq = Reply resp)
          \<and> (host_is_local c \<longrightarrow> engine_fails w = None)"
    by (auto simp add: DoflerClient_outcome login_outcome lreq c
        split: option.splits reply.splits)
  have d2: "refuse w lreq = None \<and> net w lreq = Fails e \<longrightarrow>
          fst (DoflerClient h p usr pwd s anon w) = Raise e"
    by (simp add: DoflerClient_outcome login_outcome lreq c)
  have d3: "refuse w lreq = None \<and> net w lreq = Silent \<longrightarrow>
          fst (DoflerClient h p usr pwd s anon w) = Hang"
    by (simp add: DoflerClient_outcome login_outcome lreq c)
  have ps: "posts (snd (services jl c w)) = posts w @ [sreq ''none'' ''none'']"
    by (simp add: services_def snd_loads snd_await call_posts sreq)
  have pa: "posts (snd (start jl c name w)) = posts w @ [sreq ''Start'' name]"
    by (simp add: start_def snd_loads snd_await call_posts sreq)
  have po: "posts (snd (stop jl c name w)) = posts w @ [sreq ''Stop'' name]"
    by (simp add: stop_def snd_loads snd_await call_posts sreq)
  have os: "fst (services jl c w) =
     (case refuse w (sreq ''none'' ''none'') of
        Some e \<Rightarrow> Raise e
      | None \<Rightarrow>
          (case net w (sreq ''none'' ''none'') of
             Reply r \<Rightarrow> (case jl (content r) of Inl e \<Rightarrow> Raise e | Inr j \<Rightarrow> Return j)
           | Fails e \<Rightarrow> Raise e
           | Silent \<Rightarrow> Hang))"
    unfolding sreq by (simp add: services_def loads_await_call)
  have oa: "fst (start jl c name w) =
     (case refuse w (sreq ''Start'' name) of
        Some e \<Rightarrow> Raise e
      | None \<Rightarrow>
          (case net w (sreq ''Start'' name) of
             Reply r \<Rightarrow> (case jl (content r) of Inl e \<Rightarrow> Raise e | Inr j \<Rightarrow> Return j)
           | Fails e \<Rightarrow> Raise e
           | Silent \<Rightarrow> Hang))"
    unfolding sreq by (simp add: start_def loads_await_call)
  have oo: "fst (stop jl c name w) =
     (case refuse w (sreq ''Stop'' name) of
        Some e \<Rightarrow> Raise e
      | None \<Rightarrow>
          (case net w (sreq ''Stop'' name) of
             Reply r \<Rightarrow> (case jl (content r) of Inl e \<Rightarrow> Raise e | Inr j \<Rightarrow> Return j)
           | Fails e \<Rightarrow> Raise e
           | Silent \<Rightarrow> Hang))"
    unfolding sreq by (simp add: stop_def loads_await_call)
  note s = awaited_json [OF os, of j e]
  note a = awaited_json [OF oa, of j e]
  note o = awaited_json [OF oo, of j e]
  from p1 l1 l2 p2 d1 d2 d3 ps s [THEN conjunct1] s [THEN conjunct2, THEN conjunct1]
    s [THEN conjunct2, THEN conjunct2] pa a [THEN conjunct1] a [THEN conjunct2, THEN conjunct1]
    a [THEN conjunct2, THEN conjunct2] po o [THEN conjunct1] o [THEN conjunct2, THEN conjunct1]
    o [THEN conjunct2, THEN conjunct2]
  show ?thesis
    by (intro conjI)
qed

theorem blocking_calls_witness:
  "fst (DoflerClient ''127.0.0.1'' ''8080'' ''sensor1'' ''pw'' False True
          (fresh_world\<lparr>net := unreachable\<rparr>)) = Raise ConnectionError
   \<and> fst (DoflerClient ''127.0.0.1'' ''8080'' ''sensor1'' ''pw'' False True fresh_world)
       = Return local_client
   \<and> posts (snd (DoflerClient ''127.0.0.1'' ''8080'' ''sensor1'' ''pw'' False True fresh_world))
       = [\<lparr>location = ''http://127.0.0.1:8080/post/login'',
           data = [(''username'', PyStr ''sensor1''), (''password'', PyStr ''pw'')],
           files = []\<rparr>]
   \<and> fst (services decode_empty local_client (fresh_world\<lparr>net := silence\<rparr>)) = Hang
   \<and> fst (stop decode_empty local_client ''ftp'' (fresh_world\<lparr>net := silence\<rparr>)) = Hang
   \<and> fst (start decode_empty local_client ''ftp'' (fresh_world\<lparr>net := unreachable\<rparr>))
       = Raise ConnectionError
   \<and> fst (start decode_empty local_client ''ftp'' fresh_world) = Return []
   \<and> posts (snd (start decode_empty local_client ''ftp'' fresh_world))
       = [\<lparr>location = ''http://127.0.0.1:8080/post/services'',
           data = [(''action'', PyStr ''Start''), (''parser'', PyStr ''ftp'')],
           files = []\<rparr>]
   \<and> fst (stop decode_empty local_client ''ftp'' fresh_world) = Return []
   \<and> posts (snd (stop decode_empty local_client ''ftp'' fresh_world))
       = [\<lparr>location = ''http://127.0.0.1:8080/post/services'',
           data = [(''action'', PyStr ''Stop''), (''parser'', PyStr ''ftp'')],
           files = []\<rparr>]
   \<and> fst (services decode_empty local_client fresh_world) = Return []"
proof -
  note tu = blocking_calls [OF refl refl refl, where h = "''127.0.0.1''" and p = "''8080''"
        and usr = "''sensor1''" and pwd = "''pw''" and s = False and anon = True
        and w = "fresh_world\<lparr>net := unreachable\<rparr>"
        and e = ConnectionError and jl = decode_empty and name = "''ftp''" and j = "[]"]
  note ts = blocking_calls [OF refl refl refl, where h = "''127.0.0.1''" and p = "''8080''"
        and usr = "''sensor1''" and pwd = "''pw''" and s = False and anon = True
        and w = "fresh_world\<lparr>net := silence\<rparr>"
        and e = ConnectionError and jl = decode_empty and name = "''ftp''" and j = "[]"]
  note t = blocking_calls [OF refl refl refl, where h = "''127.0.0.1''" and p = "''8080''"
        and usr = "''sensor1''" and pwd = "''pw''" and s = False and anon = True
        and w = fresh_world
        and e = ConnectionError and jl = decode_empty and name = "''ftp''" and j = "[]"]
  have unreach: "fst (DoflerClient ''127.0.0.1'' ''8080'' ''sensor1'' ''pw'' False True
          (fresh_world\<lparr>net := unreachable\<rparr>)) = Raise ConnectionError"
    using tu by (simp add: fresh_world_def unreachable_def accept_def)
  have ok: "fst (DoflerClient ''127.0.0.1'' ''8080'' ''sensor1'' ''pw'' False True fresh_world)
       = Return local_client"
    using t by (simp add: fresh_world_def answer_def accept_def local_client_def)
  have sent: "posts (snd (DoflerClient ''127.0.0.1'' ''8080'' ''sensor1'' ''pw'' False True
        fresh_world))
       = [\<lparr>location = ''http://127.0.0.1:8080/post/login'',
           data = [(''username'', PyStr ''sensor1''), (''password'', PyStr ''pw'')],
           files = []\<rparr>]"
    using t by (simp add: fresh_world_def location_of_def)
  have hang: "fst (services decode_empty local_client (fresh_world\<lparr>net := silence\<rparr>)) = Hang"
    using ts by (simp add: fresh_world_def silence_def accept_def local_client_def)
  have hang2: "fst (stop decode_empty local_client ''ftp'' (fresh_world\<lparr>net := silence\<rparr>)) = Hang"
    using ts by (simp add: fresh_world_def silence_def accept_def local_client_def)
  have fail: "fst (start decode_empty local_client ''ftp'' (fresh_world\<lparr>net := unreachable\<rparr>))
       = Raise ConnectionError"
    using tu by (simp add: fresh_world_def unreachable_def accept_def local_client_def)
  have started: "fst (start decode_empty local_client ''ftp'' fresh_world) = Return []"
    using t by (simp add: fresh_world_def answer_def accept_def local_client_def decode_empty_def)
  have startp: "posts (snd (start decode_empty local_client ''ftp'' fresh_world))
       = [\<lparr>location = ''http://127.0.0.1:8080/post/services'',
           data = [(''action'', PyStr ''Start''), (''parser'', PyStr ''ftp'')],
           files = []\<rparr>]"
    using t by (simp add: fresh_world_def local_client_def location_of_def)
  have stopped: "fst (stop decode_empty local_client ''ftp'' fresh_world) = Return []"
    using t by (simp add: fresh_world_def answer_def accept_def local_client_def decode_empty_def)
  have stopp: "posts (snd (stop decode_empty local_client ''ftp'' fresh_world))
       = [\<lparr>location = ''http://127.0.0.1:8080/post/services'',
           data = [(''action'', PyStr ''Stop''), (''parser'', PyStr ''ftp'')],
           files = []\<rparr>]"
    using t by (simp add: fresh_world_def local_client_def location_of_def)
  have parsed: "fst (services decode_empty local_client fresh_world) = Return []"
    using t by (simp add: fresh_world_def answer_def accept_def local_client_def decode_empty_def)
  from unreach ok sent hang hang2 fail started startp stopped stopp parsed show ?thesis
    by (intro conjI)
qed

subsection \<open>Failures of an image report\<close>

lemma call_outcome:
  "fst (call c url d f w) =
     (case refuse w \<lparr>location = location_of c url, data = d, files = f\<rparr> of
        Some e \<Rightarrow> Raise e | None \<Rightarrow> Return \<lparr>location = location_of c url, data = d, files = f\<rparr>)"
  by (simp add: call_def opener_post_def log_debug_def Let_def split: option.splits)

lemma call_logs:
  "logs (snd (call c url d f w)) = logs w @ [(DEBUG, ''CLIENT: %s'', [PyStr (location_of c url)])]"
  by (simp add: call_def opener_post_def log_debug_def Let_def split: option.splits)

lemma image_remote:
  assumes "\<not> host_is_local c" and "fs w p = Some f"
  shows "image_op md5hash c p t w =
     (if readable f then
        (case refuse w \<lparr>location = location_of c ''/post/image'',
                        data = [(''filetype'', PyStr (last (split_on CHR ''.'' p)))],
                        files = [(''file'', p, filedata f)]\<rparr> of
           None \<Rightarrow> (Return (), snd (call c ''/post/image''
                        [(''filetype'', PyStr (last (split_on CHR ''.'' p)))]
                        [(''file'', p, filedata f)] w))
         | Some e \<Rightarrow> (Return (),
               log_error ''API: Upload Failed. %s=%skb''
                 [PyStr p, PyInt (int (length (filedata f)) div 1024)]
                 (snd (call c ''/post/image''
                        [(''filetype'', PyStr (last (split_on CHR ''.'' p)))]
                        [(''file'', p, filedata f)] w))))
      else (Return (),
            log_error ''API: Upload Failed. %s=%skb''
              [PyStr p, PyInt (int (length (filedata f)) div 1024)] w))"
proof -
  obtain r w1 where cl: "call c ''/post/image''
                        [(''filetype'', PyStr (last (split_on CHR ''.'' p)))]
                        [(''file'', p, filedata f)] w = (r, w1)"
    by (cases "call c ''/post/image''
                        [(''filetype'', PyStr (last (split_on CHR ''.'' p)))]
                        [(''file'', p, filedata f)] w")
  from call_outcome [of c "''/post/image''" "[(''filetype'', PyStr (last (split_on CHR ''.'' p)))]"
      "[(''file'', p, filedata f)]" w] cl
  have r: "r = (case refuse w \<lparr>location = location_of c ''/post/image'',
                        data = [(''filetype'', PyStr (last (split_on CHR ''.'' p)))],
                        files = [(''file'', p, filedata f)]\<rparr> of
        Some e \<Rightarrow> Raise e | None \<Rightarrow> Return \<lparr>location = location_of c ''/post/image'',
                        data = [(''filetype'', PyStr (last (split_on CHR ''.'' p)))],
                        files = [(''file'', p, filedata f)]\<rparr>)"
    by simp
  show ?thesis
    using assms r
    by (simp add: image_op_def open_rb_def Let_def cl split: option.splits)
qed

text \<open>
  What an \<open>image\<close> call does about failures. When the path does not exist it only logs an
  error and returns: nothing is stored, no session is opened, no request is handed to
  the channel. On a host that is not a loopback name the call always returns normally,
  stores nothing and hands at most one POST to the channel; when opening the file or
  handing the request over raises, the exception is caught and the last thing the call
  does is log \<open>Upload Failed\<close> with the path and the size in kilobytes.
\<close>

lemma image_failures_nonfatal:
  assumes req: "req = \<lparr>location = location_of c ''/post/image'',
                       data = [(''filetype'', PyStr (last (split_on CHR ''.'' p)))],
                       files = [(''file'', p, filedata f)]\<rparr>"
    and w': "w' = snd (image_op md5hash c p t w)"
  shows "(fs w p = None \<longrightarrow>
            image_op md5hash c p t w
              = (Return (), log_error ''API: %s doesnt exist'' [PyStr p] w)
            \<and> posts w' = posts w \<and> images w' = images w \<and> opened w' = opened w)
    \<and> (\<not> host_is_local c \<longrightarrow>
            fst (image_op md5hash c p t w) = Return ()
            \<and> images w' = images w \<and> opened w' = opened w
            \<and> length (posts w') \<le> length (posts w) + 1)
    \<and> (\<not> host_is_local c \<and> fs w p = Some f \<and> (\<not> readable f \<or> refuse w req \<noteq> None) \<longrightarrow>
            last (logs w') = (ERROR, ''API: Upload Failed. %s=%skb'',
                               [PyStr p, PyInt (int (length (filedata f)) div 1024)]))"
proof -
  have missing: "fs w p = None \<longrightarrow>
            image_op md5hash c p t w
              = (Return (), log_error ''API: %s doesnt exist'' [PyStr p] w)
            \<and> posts w' = posts w \<and> images w' = images w \<and> opened w' = opened w"
    by (simp add: w' image_op_def log_error_def)
  have remote: "\<not> host_is_local c \<longrightarrow>
            fst (image_op md5hash c p t w) = Return ()
            \<and> images w' = images w \<and> opened w' = opened w
            \<and> length (posts w') \<le> length (posts w) + 1"
  proof
    assume r: "\<not> host_is_local c"
    show "fst (image_op md5hash c p t w) = Return ()
            \<and> images w' = images w \<and> opened w' = opened w
            \<and> length (posts w') \<le> length (posts w) + 1"
    proof (cases "fs w p")
      case None
      with missing show ?thesis by simp
    next
      case (Some g)
      show ?thesis
        unfolding w' image_remote [OF r Some]
        by (simp add: log_error_def call_store call_posts split: option.splits)
    qed
  qed
  have failed: "\<not> host_is_local c \<and> fs w p = Some f \<and> (\<not> readable f \<or> refuse w req \<noteq> None) \<longrightarrow>
            last (logs w') = (ERROR, ''API: Upload Failed. %s=%skb'',
                               [PyStr p, PyInt (int (length (filedata f)) div 1024)])"
  proof
    assume a: "\<not> host_is_local c \<and> fs w p = Some f \<and> (\<not> readable f \<or> refuse w req \<noteq> None)"
    then have r: "\<not> host_is_local c" and s: "fs w p = Some f" by simp_all
    from a show "last (logs w') = (ERROR, ''API: Upload Failed. %s=%skb'',
                               [PyStr p, PyInt (int (length (filedata f)) div 1024)])"
      unfolding w' image_remote [OF r s]
      by (auto simp add: log_error_def req split: option.splits)
  qed
  from missing remote failed show ?thesis
    by (intro conjI)
qed

lemma image_failures_nonfatal_example:
  "\<not> host_is_local remote_client
   \<and> image_op id remote_client ''/tmp/missing.png'' 100 fresh_world
       = (Return (), log_error ''API: %s doesnt exist'' [PyStr ''/tmp/missing.png''] fresh_world)
   \<and> fst (image_op id remote_client ''/tmp/locked.png'' 100 fresh_world) = Return ()
   \<and> last (logs (snd (image_op id remote_client ''/tmp/locked.png'' 100 fresh_world)))
       = (ERROR, ''API: Upload Failed. %s=%skb'', [PyStr ''/tmp/locked.png'', PyInt 0])
   \<and> posts (snd (image_op id remote_client ''/tmp/locked.png'' 100 fresh_world)) = []"
proof -
  have h: "\<not> host_is_local remote_client"
    by (simp add: host_is_local_def remote_client_def)
  have m: "fs fresh_world ''/tmp/missing.png'' = None"
    by (simp add: fresh_world_def)
  have l: "fs fresh_world ''/tmp/locked.png'' = Some \<lparr>readable = False, filedata = ''SECRET''\<rparr>"
    by (simp add: fresh_world_def)
  note t1 = image_failures_nonfatal [OF refl refl, where c = remote_client
      and p = "''/tmp/missing.png''" and w = fresh_world and md5hash = id and t = 100
      and f = "\<lparr>readable = False, filedata = ''SECRET''\<rparr>"]
  note t2 = image_failures_nonfatal [OF refl refl, where c = remote_client
      and p = "''/tmp/locked.png''" and w = fresh_world and md5hash = id and t = 100
      and f = "\<lparr>readable = False, filedata = ''SECRET''\<rparr>"]
  have a: "image_op id remote_client ''/tmp/missing.png'' 100 fresh_world
       = (Return (), log_error ''API: %s doesnt exist'' [PyStr ''/tmp/missing.png''] fresh_world)"
    using t1 [THEN conjunct1] m by simp
  have b: "fst (image_op id remote_client ''/tmp/locked.png'' 100 fresh_world) = Return ()"
    using t2 [THEN conjunct2, THEN conjunct1] h by simp
  have c: "last (logs (snd (image_op id remote_client ''/tmp/locked.png'' 100 fresh_world)))
       = (ERROR, ''API: Upload Failed. %s=%skb'', [PyStr ''/tmp/locked.png'', PyInt 0])"
    using t2 [THEN conjunct2, THEN conjunct2] h l by simp
  have d: "posts (snd (image_op id remote_client ''/tmp/locked.png'' 100 fresh_world)) = []"
    unfolding image_remote [OF h l] by (simp add: log_error_def fresh_world_def)
  from h a b c d show ?thesis
    by (intro conjI)
qed

text \<open>
  Claim C8 says that in remote mode a network error of the upload is caught inside the
  call and logged. Lines 155 to 160 attempt it with a \<open>try\<close> around \<open>call\<close> and an
  \<open>Upload Failed\<close> log line, but \<open>call\<close> returns the future as soon as the request is
  handed over and \<open>image\<close> never awaits it: with a collector that cannot be reached the
  request is handed over, the call returns normally, and the only log entry is the debug
  line of \<open>call\<close>. The error of the transfer is neither caught nor logged.
\<close>

theorem image_transfer_failure_not_logged:
  "\<not> host_is_local remote_client
   \<and> fs fresh_world ''/tmp/cat.png'' = Some \<lparr>readable = True, filedata = ''PNGDATA''\<rparr>
   \<and> net (fresh_world\<lparr>net := unreachable\<rparr>)
        \<lparr>location = location_of remote_client ''/post/image'',
         data = [(''filetype'', PyStr ''png'')],
         files = [(''file'', ''/tmp/cat.png'', ''PNGDATA'')]\<rparr> = Fails ConnectionError
   \<and> fst (image_op id remote_client ''/tmp/cat.png'' 100
             (fresh_world\<lparr>net := unreachable\<rparr>)) = Return ()
   \<and> posts (snd (image_op id remote_client ''/tmp/cat.png'' 100
                   (fresh_world\<lparr>net := unreachable\<rparr>)))
       = [\<lparr>location = location_of remote_client ''/post/image'',
           data = [(''filetype'', PyStr ''png'')],
           files = [(''file'', ''/tmp/cat.png'', ''PNGDATA'')]\<rparr>]
   \<and> map fst (logs (snd (image_op id remote_client ''/tmp/cat.png'' 100
                           (fresh_world\<lparr>net := unreachable\<rparr>)))) = [DEBUG]"
  by (simp add: image_op_def open_rb_def Let_def call_def opener_post_def log_debug_def
      fresh_world_def remote_client_def host_is_local_def unreachable_def accept_def)

subsection \<open>Mode selection\<close>

lemma image_local_sessions:
  assumes "host_is_local c" and "fs w p = Some f" and "readable f"
  shows "opened (snd (image_op md5hash c p t w)) = opened w + 1"
    and "posts (snd (image_op md5hash c p t w)) = posts w"
  using assms
  by (simp_all add: image_op_def open_rb_def Let_def Session_open_def s_commit_def s_close_def
      log_debug_def split: sum.splits)

text \<open>
  Claim C5, amended. For \<open>account\<close>, for \<open>stat\<close>, and for \<open>image\<close> on a path that exists and
  can be opened: on a loopback host the call opens a database session and hands nothing
  to the channel; on any other host it opens no session, leaves the tables alone and
  hands exactly one POST to the channel, to the path of the operation. The test is on
  the host alone. An \<open>image\<close> call on a path that does not exist does neither, whatever
  the host.
\<close>

theorem mode_selection:
  assumes w1: "w1 = snd (account clean c usr pwd info proto parser w)"
    and w2: "w2 = snd (stat c proto n now w)"
    and w3: "w3 = snd (image_op md5hash c p t w)"
  shows "(host_is_local c \<longrightarrow>
            opened w1 = opened w + 1 \<and> posts w1 = posts w
          \<and> opened w2 = opened w + 1 \<and> posts w2 = posts w
          \<and> (fs w p = Some f \<and> readable f \<longrightarrow> opened w3 = opened w + 1 \<and> posts w3 = posts w))
    \<and> (\<not> host_is_local c \<longrightarrow>
            opened w1 = opened w \<and> accounts w1 = accounts w
          \<and> (\<exists>d. posts w1 = posts w @ [\<lparr>location = location_of c ''/post/account'', data = d, files = []\<rparr>])
          \<and> opened w2 = opened w \<and> stats w2 = stats w
          \<and> (\<exists>d. posts w2 = posts w @ [\<lparr>location = location_of c ''/post/stat'', data = d, files = []\<rparr>])
          \<and> (fs w p = Some f \<and> readable f \<longrightarrow>
                opened w3 = opened w \<and> images w3 = images w
              \<and> (\<exists>d. posts w3 = posts w @ [\<lparr>location = location_of c ''/post/image'', data = d,
                                              files = [(''file'', p, filedata f)]\<rparr>])))
    \<and> (fs w p = None \<longrightarrow> opened w3 = opened w \<and> posts w3 = posts w)"
proof -
  have loc: "host_is_local c \<longrightarrow>
            opened w1 = opened w + 1 \<and> posts w1 = posts w
          \<and> opened w2 = opened w + 1 \<and> posts w2 = posts w
          \<and> (fs w p = Some f \<and> readable f \<longrightarrow> opened w3 = opened w + 1 \<and> posts w3 = posts w)"
  proof
    assume h: "host_is_local c"
    have a: "opened w1 = opened w + 1 \<and> posts w1 = posts w"
      using h by (simp add: w1 account_def Let_def Session_open_def s_commit_def log_debug_def)
    have b: "opened w2 = opened w + 1 \<and> posts w2 = posts w"
      using h by (simp add: w2 stat_def Let_def Session_open_def s_commit_def s_close_def
          log_debug_def)
    have c: "fs w p = Some f \<and> readable f \<longrightarrow> opened w3 = opened w + 1 \<and> posts w3 = posts w"
      using h image_local_sessions [of c w p f md5hash t] by (simp add: w3)
    from a b c show "opened w1 = opened w + 1 \<and> posts w1 = posts w
          \<and> opened w2 = opened w + 1 \<and> posts w2 = posts w
          \<and> (fs w p = Some f \<and> readable f \<longrightarrow> opened w3 = opened w + 1 \<and> posts w3 = posts w)"
      by simp
  qed
  have rem: "\<not> host_is_local c \<longrightarrow>
            opened w1 = opened w \<and> accounts w1 = accounts w
          \<and> (\<exists>d. posts w1 = posts w @ [\<lparr>location = location_of c ''/post/account'', data = d, files = []\<rparr>])
          \<and> opened w2 = opened w \<and> stats w2 = stats w
          \<and> (\<exists>d. posts w2 = posts w @ [\<lparr>location = location_of c ''/post/stat'', data = d, files = []\<rparr>])
          \<and> (fs w p = Some f \<and> readable f \<longrightarrow>
                opened w3 = opened w \<and> images w3 = images w
              \<and> (\<exists>d. posts w3 = posts w @ [\<lparr>location = location_of c ''/post/image'', data = d,
                                              files = [(''file'', p, filedata f)]\<rparr>]))"
  proof
    assume h: "\<not> host_is_local c"
    have a: "opened w1 = opened w \<and> accounts w1 = accounts w
          \<and> (\<exists>d. posts w1 = posts w @ [\<lparr>location = location_of c ''/post/account'', data = d, files = []\<rparr>])"
      using h by (simp add: w1 account_def Let_def snd_ignore_result call_store call_posts)
    have b: "opened w2 = opened w \<and> stats w2 = stats w
          \<and> (\<exists>d. posts w2 = posts w @ [\<lparr>location = location_of c ''/post/stat'', data = d, files = []\<rparr>])"
      using h by (simp add: w2 stat_def snd_ignore_result call_store call_posts)
    have c: "fs w p = Some f \<and> readable f \<longrightarrow>
                opened w3 = opened w \<and> images w3 = images w
              \<and> (\<exists>d. posts w3 = posts w @ [\<lparr>location = location_of c ''/post/image'', data = d,
                                              files = [(''file'', p, filedata f)]\<rparr>])"
    proof
      assume f: "fs w p = Some f \<and> readable f"
      then have s: "fs w p = Some f" and r: "readable f" by simp_all
      show "opened w3 = opened w \<and> images w3 = images w
              \<and> (\<exists>d. posts w3 = posts w @ [\<lparr>location = location_of c ''/post/image'', data = d,
                                              files = [(''file'', p, filedata f)]\<rparr>])"
        unfolding w3 image_remote [OF h s]
        using r by (simp add: log_error_def call_store call_posts split: option.splits)
    qed
    from a b c show "opened w1 = opened w \<and> accounts w1 = accounts w
          \<and> (\<exists>d. posts w1 = posts w @ [\<lparr>location = location_of c ''/post/account'', data = d, files = []\<rparr>])
          \<and> opened w2 = opened w \<and> stats w2 = stats w
          \<and> (\<exists>d. posts w2 = posts w @ [\<lparr>location = location_of c ''/post/stat'', data = d, files = []\<rparr>])
          \<and> (fs w p = Some f \<and> readable f \<longrightarrow>
                opened w3 = opened w \<and> images w3 = images w
              \<and> (\<exists>d. posts w3 = posts w @ [\<lparr>location = location_of c ''/post/image'', data = d,
                                              files = [(''file'', p, filedata f)]\<rparr>]))"
      by simp
  qed
  have mis: "fs w p = None \<longrightarrow> opened w3 = opened w \<and> posts w3 = posts w"
    by (simp add: w3 image_op_def log_error_def)
  from loc rem mis show ?thesis
    by (intro conjI)
qed

text \<open>
  Claim C5, as stated, covers every call to \<open>image\<close>. It fails when the path does not
  exist: line 135 skips the call before the host is tested, so the remote client hands
  no POST to the channel and the local client opens no session.
\<close>

theorem mode_selection_counterexample:
  "\<not> host_is_local remote_client
   \<and> posts (snd (image_op id remote_client ''/tmp/missing.png'' 100 fresh_world))
       = posts fresh_world
   \<and> host_is_local local_client
   \<and> opened (snd (image_op id local_client ''/tmp/missing.png'' 100 fresh_world))
       = opened fresh_world"
  by (simp add: image_op_def log_error_def fresh_world_def host_is_local_def remote_client_def
      local_client_def)

theorem mode_selection_witness:
  "host_is_local local_client \<and> \<not> host_is_local remote_client
   \<and> opened (snd (image_op id local_client ''/tmp/cat.png'' 100 fresh_world)) = 1
   \<and> posts (snd (image_op id local_client ''/tmp/cat.png'' 100 fresh_world)) = []
   \<and> opened (snd (stat local_client ''http'' 42 100 fresh_world)) = 1
   \<and> opened (snd (image_op id remote_client ''/tmp/cat.png'' 100 fresh_world)) = 0
   \<and> length (posts (snd (image_op id remote_client ''/tmp/cat.png'' 100 fresh_world))) = 1
   \<and> length (posts (snd (stat remote_client ''http'' 42 100 fresh_world))) = 1
   \<and> posts (snd (image_op id remote_client ''/tmp/missing.png'' 100 fresh_world)) = []"
proof -
  have l: "host_is_local local_client"
    by (simp add: host_is_local_def local_client_def)
  have r: "\<not> host_is_local remote_client"
    by (simp add: host_is_local_def remote_client_def)
  have cat: "fs fresh_world ''/tmp/cat.png'' = Some \<lparr>readable = True, filedata = ''PNGDATA''\<rparr>"
    by (simp add: fresh_world_def)
  have mis: "fs fresh_world ''/tmp/missing.png'' = None"
    by (simp add: fresh_world_def)
  have z: "opened fresh_world = 0" "posts fresh_world = []"
    by (simp_all add: fresh_world_def)
  note tl = mode_selection [OF refl refl refl, where c = local_client and w = fresh_world
      and p = "''/tmp/cat.png''" and f = "\<lparr>readable = True, filedata = ''PNGDATA''\<rparr>"
      and md5hash = id and t = 100 and proto = "''http''" and n = 42 and now = 100
      and clean = id and usr = "''bob''" and pwd = "''secret''" and info = "''ftp login''"
      and parser = "''ftpparser''", THEN conjunct1]
  note tr = mode_selection [OF refl refl refl, where c = remote_client and w = fresh_world
      and p = "''/tmp/cat.png''" and f = "\<lparr>readable = True, filedata = ''PNGDATA''\<rparr>"
      and md5hash = id and t = 100 and proto = "''http''" and n = 42 and now = 100
      and clean = id and usr = "''bob''" and pwd = "''secret''" and info = "''ftp login''"
      and parser = "''ftpparser''", THEN conjunct2, THEN conjunct1]
  note tm = mode_selection [OF refl refl refl, where c = remote_client and w = fresh_world
      and p = "''/tmp/missing.png''" and f = "\<lparr>readable = True, filedata = ''PNGDATA''\<rparr>"
      and md5hash = id and t = 100 and proto = "''http''" and n = 42 and now = 100
      and clean = id and usr = "''bob''" and pwd = "''secret''" and info = "''ftp login''"
      and parser = "''ftpparser''", THEN conjunct2, THEN conjunct2]
  have a: "opened (snd (image_op id local_client ''/tmp/cat.png'' 100 fresh_world)) = 1
   \<and> posts (snd (image_op id local_client ''/tmp/cat.png'' 100 fresh_world)) = []
   \<and> opened (snd (stat local_client ''http'' 42 100 fresh_world)) = 1"
    using tl l cat z by simp
  have b: "opened (snd (image_op id remote_client ''/tmp/cat.png'' 100 fresh_world)) = 0
   \<and> length (posts (snd (image_op id remote_client ''/tmp/cat.png'' 100 fresh_world))) = 1
   \<and> length (posts (snd (stat remote_client ''http'' 42 100 fresh_world))) = 1"
    using tr r cat z by auto
  have c: "posts (snd (image_op id remote_client ''/tmp/missing.png'' 100 fresh_world)) = []"
    using tm mis z by simp
  from l r a b c show ?thesis
    by simp
qed

end
